theory Spec2Isabelle
  imports Complex_Main "HOL-Library.Char_ord" "HOL-Library.List_Lexorder"
begin

section \<open>Exceptions\<close>

text \<open>
  A Python exception is a value: its class and its message. \<open>ValueError\<close>,
  \<open>TypeError\<close>, \<open>IndexError\<close> and \<open>ZeroDivisionError\<close> are the built-in classes the
  analyzers can meet; \<open>OtherException\<close> carries the class name of any other one.
  \<open>exception_type\<close> is what \<open>OlistAnalyticsError.to_dict\<close> reports under
  \<open>'exception_type'\<close>: the name of the class.
\<close>

datatype py_exception =
    ValueError string
  | TypeError string
  | IndexError string
  | ZeroDivisionError string
  | OtherException string string

fun exception_type :: "py_exception \<Rightarrow> string" where
  "exception_type (ValueError msg) = ''ValueError''"
| "exception_type (TypeError msg) = ''TypeError''"
| "exception_type (IndexError msg) = ''IndexError''"
| "exception_type (ZeroDivisionError msg) = ''ZeroDivisionError''"
| "exception_type (OtherException cls msg) = cls"

text \<open>The exception classes that \<open>core/exceptions.py\<close> declares, in its order.\<close>

definition olist_exception_classes :: "string list" where
  "olist_exception_classes =
     [''OlistAnalyticsError'', ''DataValidationError'', ''ConfigurationError'',
      ''AnalysisError'', ''DataIntegrityError'', ''CacheError'', ''DatabaseError'',
      ''AuthenticationError'', ''AuthorizationError'']"

section \<open>Tables\<close>

text \<open>
  A data frame is the list of its rows; each stage returns a new table whose rows extend
  the rows it was given. The columns a stage does not know of (the enterprise analyzer's
  \<open>first_order\<close>, \<open>last_order\<close>, \<open>avg_order_value\<close>, \<open>lifetime_days\<close>) ride along in the
  record's extension slot. A datetime is a number of seconds, a timedelta's \<open>.days\<close> is the
  floor of its seconds divided by 86400; money is an exact real number.
\<close>

record rfm_row =
  customer_id :: string
  recency :: int
  frequency :: int
  monetary :: real


record scored_row = rfm_row +
  r_score :: int
  f_score :: int
  m_score :: int
  rfm_score :: string

record segmented_row = scored_row +
  segment :: string

record prioritized_row = segmented_row +
  segment_priority :: "int option"

section \<open>Segment classification\<close>

subsection \<open>Simple policy: \<open>RFMAnalyzer.create_segments\<close>\<close>

definition rfm_segment_customers :: "'a scored_row_scheme \<Rightarrow> string" where
  "rfm_segment_customers row =
     (if rfm_score row \<in> set [''555'', ''554'', ''544'', ''545'', ''454'', ''455'', ''445'']
        then ''Champions''
      else if r_score row \<ge> 4 \<and> f_score row \<ge> 3 then ''Loyal Customers''
      else if r_score row \<ge> 3 \<and> m_score row \<ge> 4 then ''Big Spenders''
      else if r_score row \<le> 2 \<and> f_score row \<ge> 3 then ''At Risk''
      else if r_score row \<le> 2 then ''Lost''
      else ''Regular'')"

definition with_segment :: "string \<Rightarrow> 'a scored_row_scheme \<Rightarrow> 'a segmented_row_scheme" where
  "with_segment s row =
     \<lparr> customer_id = customer_id row, recency = recency row, frequency = frequency row,
       monetary = monetary row, r_score = r_score row, f_score = f_score row,
       m_score = m_score row, rfm_score = rfm_score row, segment = s,
       \<dots> = scored_row.more row \<rparr>"

definition create_segments :: "'a scored_row_scheme list \<Rightarrow> 'a segmented_row_scheme list" where
  "create_segments rfm_scores = map (\<lambda>row. with_segment (rfm_segment_customers row) row) rfm_scores"

subsection \<open>Enterprise policy: \<open>EnterpriseRFMAnalyzer._create_segments\<close>\<close>

text \<open>
  The thresholds are a dictionary read with \<open>dict.get(key, default)\<close>;
  \<open>segment_thresholds\<close> is the default of \<open>AnalyticsConfig\<close> in \<open>core/config.py\<close>.
\<close>

type_synonym thresholds = "string \<rightharpoonup> int"

definition dict_get :: "thresholds \<Rightarrow> string \<Rightarrow> int \<Rightarrow> int" where
  "dict_get d k dflt = (case d k of Some v \<Rightarrow> v | None \<Rightarrow> dflt)"

definition segment_thresholds :: thresholds where
  "segment_thresholds =
     [''champion_r_min'' \<mapsto> 4, ''champion_f_min'' \<mapsto> 4, ''champion_m_min'' \<mapsto> 4,
      ''at_risk_r_max'' \<mapsto> 2, ''lost_r_max'' \<mapsto> 1]"

definition segment_customers :: "thresholds \<Rightarrow> 'a scored_row_scheme \<Rightarrow> string" where
  "segment_customers th row =
     (let r = r_score row; f = f_score row; m = m_score row in
      if r \<ge> dict_get th ''champion_r_min'' 4 \<and> f \<ge> dict_get th ''champion_f_min'' 4
           \<and> m \<ge> dict_get th ''champion_m_min'' 4
        then ''Champions''
      else if r \<ge> 4 \<and> f \<ge> 4 then ''Loyal Customers''
      else if r \<ge> 4 \<and> f \<ge> 2 then ''Potential Loyalists''
      else if r \<ge> 4 \<and> f = 1 then ''New Customers''
      else if r \<ge> 3 \<and> f \<ge> 2 then ''Promising''
      else if r \<ge> 3 \<and> f = 1 \<and> m \<ge> 4 then ''Need Attention''
      else if r \<le> dict_get th ''at_risk_r_max'' 2 \<and> f \<ge> 3 then ''At Risk''
      else if r = 1 \<and> f \<ge> 4 \<and> m \<ge> 4 then ''Cannot Lose Them''
      else if r \<le> dict_get th ''lost_r_max'' 1 then ''Lost''
      else ''Others'')"

definition segment_priority_table :: "string \<rightharpoonup> int" where
  "segment_priority_table =
     [''Champions'' \<mapsto> 1, ''Loyal Customers'' \<mapsto> 2, ''Cannot Lose Them'' \<mapsto> 3,
      ''At Risk'' \<mapsto> 4, ''New Customers'' \<mapsto> 5, ''Potential Loyalists'' \<mapsto> 6,
      ''Need Attention'' \<mapsto> 7, ''Promising'' \<mapsto> 8, ''Others'' \<mapsto> 9, ''Lost'' \<mapsto> 10]"

definition with_priority :: "'a segmented_row_scheme \<Rightarrow> 'a prioritized_row_scheme" where
  "with_priority row =
     \<lparr> customer_id = customer_id row, recency = recency row, frequency = frequency row,
       monetary = monetary row, r_score = r_score row, f_score = f_score row,
       m_score = m_score row, rfm_score = rfm_score row, segment = segment row,
       segment_priority = segment_priority_table (segment row),
       \<dots> = segmented_row.more row \<rparr>"

definition enterprise_create_segments ::
  "thresholds \<Rightarrow> 'a scored_row_scheme list \<Rightarrow> 'a prioritized_row_scheme list" where
  "enterprise_create_segments th rfm_df =
     map (\<lambda>row. with_priority (with_segment (segment_customers th row) row)) rfm_df"

text \<open>
  The enterprise rules as the documentation lists them: an ordered list of conditions and
  segment names, read first-match-wins.
\<close>

type_synonym rule = "(int \<times> int \<times> int \<Rightarrow> bool) \<times> string"

definition enterprise_rules :: "thresholds \<Rightarrow> rule list" where
  "enterprise_rules th =
     [(\<lambda>(r, f, m). r \<ge> dict_get th ''champion_r_min'' 4 \<and> f \<ge> dict_get th ''champion_f_min'' 4
                    \<and> m \<ge> dict_get th ''champion_m_min'' 4, ''Champions''),
      (\<lambda>(r, f, m). r \<ge> 4 \<and> f \<ge> 4, ''Loyal Customers''),
      (\<lambda>(r, f, m). r \<ge> 4 \<and> f \<ge> 2, ''Potential Loyalists''),
      (\<lambda>(r, f, m). r \<ge> 4 \<and> f = 1, ''New Customers''),
      (\<lambda>(r, f, m). r \<ge> 3 \<and> f \<ge> 2, ''Promising''),
      (\<lambda>(r, f, m). r \<ge> 3 \<and> f = 1 \<and> m \<ge> 4, ''Need Attention''),
      (\<lambda>(r, f, m). r \<le> dict_get th ''at_risk_r_max'' 2 \<and> f \<ge> 3, ''At Risk''),
      (\<lambda>(r, f, m). r = 1 \<and> f \<ge> 4 \<and> m \<ge> 4, ''Cannot Lose Them''),
      (\<lambda>(r, f, m). r \<le> dict_get th ''lost_r_max'' 1, ''Lost''),
      (\<lambda>(r, f, m). True, ''Others'')]"

fun first_match :: "rule list \<Rightarrow> int \<times> int \<times> int \<Rightarrow> string option" where
  "first_match [] t = None"
| "first_match ((cond, name) # rules) t = (if cond t then Some name else first_match rules t)"

definition score_triple :: "'a scored_row_scheme \<Rightarrow> int \<times> int \<times> int" where
  "score_triple row = (r_score row, f_score row, m_score row)"

definition simple_segments :: "string list" where
  "simple_segments =
     [''Champions'', ''Loyal Customers'', ''Big Spenders'', ''At Risk'', ''Lost'', ''Regular'']"

definition enterprise_segments :: "string list" where
  "enterprise_segments =
     [''Champions'', ''Loyal Customers'', ''Potential Loyalists'', ''New Customers'',
      ''Promising'', ''Need Attention'', ''At Risk'', ''Cannot Lose Them'', ''Lost'', ''Others'']"

section \<open>Score assignment\<close>

subsection \<open>The binning library\<close>

text \<open>
  \<open>pd.qcut\<close>, \<open>pd.cut\<close> and \<open>fillna\<close> on the categorical column they return are library
  code, not code of the analyzers: the scorers take them as a parameter. A call gets the
  numeric column, the number of bins and the labels, and either raises or returns the
  column of labels, \<open>None\<close> where the score is null (NaN). \<open>cat_fillna\<close> gets the categories
  of the column (the labels), the fill value and the column.

  A cell of a numeric column of a data frame may be null (NaN): a column that the scorers
  read is a list of optional numbers. The tables that the metric aggregation builds have
  no null cell.
\<close>

record binning =
  qcut :: "real option list \<Rightarrow> nat \<Rightarrow> int list \<Rightarrow> py_exception + int option list"
  cut :: "real option list \<Rightarrow> nat \<Rightarrow> int list \<Rightarrow> py_exception + int option list"
  cat_fillna :: "int list \<Rightarrow> int \<Rightarrow> int option list \<Rightarrow> py_exception + int option list"

text \<open>The columns of a metrics table, as the scorers read them.\<close>

definition recency_column :: "'a rfm_row_scheme list \<Rightarrow> real option list" where
  "recency_column rfm = map (\<lambda>row. Some (real_of_int (recency row))) rfm"

definition frequency_column :: "'a rfm_row_scheme list \<Rightarrow> real option list" where
  "frequency_column rfm = map (\<lambda>row. Some (real_of_int (frequency row))) rfm"

definition monetary_column :: "'a rfm_row_scheme list \<Rightarrow> real option list" where
  "monetary_column rfm = map (\<lambda>row. Some (monetary row)) rfm"

text \<open>\<open>Series.dropna()\<close>: the values of the cells that are not null.\<close>

definition dropna :: "'a option list \<Rightarrow> 'a list" where
  "dropna xs = map the (filter (\<lambda>x. x \<noteq> None) xs)"

text \<open>
  \<open>Series.rank(method='first')\<close>: ties are ranked in the order they appear; a null cell
  has no rank and stays null.
\<close>

definition rank_first :: "real option list \<Rightarrow> real option list" where
  "rank_first xs =
     map (\<lambda>i. case xs ! i of
                 None \<Rightarrow> None
               | Some v \<Rightarrow>
                   Some (real (1 + length (filter (\<lambda>y. y < v) (dropna xs))
                                 + length (filter (\<lambda>y. y = v) (dropna (take i xs))))))
         [0..<length xs]"

text \<open>
  On a numeric column: \<open>pd.to_numeric(errors='coerce')\<close> keeps the labels, which are
  numbers, and the nulls; \<open>fillna\<close> replaces the nulls; \<open>clip\<close> raises what is below the
  lower bound to it, then lowers what is above the upper bound to it.
\<close>

definition to_numeric :: "int option list \<Rightarrow> int option list" where
  "to_numeric col = col"

definition fillna :: "int \<Rightarrow> int option list \<Rightarrow> int list" where
  "fillna v col = map (\<lambda>x. case x of None \<Rightarrow> v | Some y \<Rightarrow> y) col"

definition clip :: "int \<Rightarrow> int \<Rightarrow> int list \<Rightarrow> int list" where
  "clip lower upper col = map (\<lambda>v. min upper (max lower v)) col"

text \<open>
  What every version of the library grants of \<open>fillna\<close> on a categorical column: when it
  returns, it returns the column with its nulls replaced by the fill value.
\<close>

definition fillna_returns_filled :: "binning \<Rightarrow> bool" where
  "fillna_returns_filled lib =
     (\<forall>categories v col filled. cat_fillna lib categories v col = Inr filled
        \<longrightarrow> filled = map Some (fillna v col))"

text \<open>\<open>str\<close> of an integer, for the composite \<open>rfm_score\<close>.\<close>

fun digits :: "nat \<Rightarrow> string" where
  "digits n =
     (if n < 10 then [''0123456789'' ! n]
      else digits (n div 10) @ [''0123456789'' ! (n mod 10)])"

declare digits.simps [simp del]

definition py_str :: "int \<Rightarrow> string" where
  "py_str i = (if i < 0 then CHR ''-'' # digits (nat (- i)) else digits (nat i))"

definition with_scores :: "int \<Rightarrow> int \<Rightarrow> int \<Rightarrow> 'a rfm_row_scheme \<Rightarrow> 'a scored_row_scheme" where
  "with_scores r f m row =
     \<lparr> customer_id = customer_id row, recency = recency row, frequency = frequency row,
       monetary = monetary row, r_score = r, f_score = f, m_score = m,
       rfm_score = py_str r @ py_str f @ py_str m, \<dots> = rfm_row.more row \<rparr>"

definition attach_scores ::
  "'a rfm_row_scheme list \<Rightarrow> int list \<Rightarrow> int list \<Rightarrow> int list \<Rightarrow> 'a scored_row_scheme list" where
  "attach_scores rfm rs fs ms =
     map (\<lambda>(row, r, f, m). with_scores r f m row) (zip rfm (zip rs (zip fs ms)))"

text \<open>
  The last step of both scorers, on each score column:
  \<open>pd.to_numeric(col, errors='coerce').fillna(3).clip(1, k)\<close>.
\<close>

definition finalize :: "int \<Rightarrow> int option list \<Rightarrow> int list" where
  "finalize k col = clip 1 k (fillna 3 (to_numeric col))"

text \<open>The fallback expression of both scorers: \<open>pd.cut(col, bins, labels).fillna(3)\<close>.\<close>

definition cut_fillna ::
  "binning \<Rightarrow> real option list \<Rightarrow> nat \<Rightarrow> int list \<Rightarrow> py_exception + int option list" where
  "cut_fillna lib col bins labels =
     (case cut lib col bins labels of
        Inl e \<Rightarrow> Inl e
      | Inr scores \<Rightarrow> cat_fillna lib labels 3 scores)"

subsection \<open>Simple scorer: \<open>RFMAnalyzer.assign_scores\<close>\<close>

definition value_or_type_error :: "py_exception \<Rightarrow> bool" where
  "value_or_type_error e =
     (case e of ValueError msg \<Rightarrow> True | TypeError msg \<Rightarrow> True | _ \<Rightarrow> False)"

text \<open>
  One \<open>try: pd.qcut(qcol, 5, labels) except (ValueError, TypeError): pd.cut(ccol, 5,
  labels).fillna(3)\<close> block. An exception of the fallback, or one of another class,
  propagates.
\<close>

definition qcut_or_cut ::
  "binning \<Rightarrow> real option list \<Rightarrow> real option list \<Rightarrow> int list
     \<Rightarrow> py_exception + int option list" where
  "qcut_or_cut lib qcol ccol labels =
     (case qcut lib qcol 5 labels of
        Inr scores \<Rightarrow> Inr scores
      | Inl e \<Rightarrow> if value_or_type_error e then cut_fillna lib ccol 5 labels else Inl e)"

text \<open>
  The score columns that \<open>assign_scores\<close> computes from the three metric columns of its
  table: the three \<open>try\<close> blocks, then the last step on each column.
\<close>

definition simple_score_columns ::
  "binning \<Rightarrow> real option list \<Rightarrow> real option list \<Rightarrow> real option list
     \<Rightarrow> py_exception + (int list \<times> int list \<times> int list)" where
  "simple_score_columns lib recency_col frequency_col monetary_col =
     (case qcut_or_cut lib recency_col recency_col [5, 4, 3, 2, 1] of
        Inl e \<Rightarrow> Inl e
      | Inr r \<Rightarrow>
     (case qcut_or_cut lib (rank_first frequency_col) frequency_col [1, 2, 3, 4, 5] of
        Inl e \<Rightarrow> Inl e
      | Inr f \<Rightarrow>
     (case qcut_or_cut lib monetary_col monetary_col [1, 2, 3, 4, 5] of
        Inl e \<Rightarrow> Inl e
      | Inr m \<Rightarrow> Inr (finalize 5 r, finalize 5 f, finalize 5 m))))"

definition assign_scores ::
  "binning \<Rightarrow> 'a rfm_row_scheme list \<Rightarrow> py_exception + 'a scored_row_scheme list" where
  "assign_scores lib rfm_df =
     (case simple_score_columns lib (recency_column rfm_df) (frequency_column rfm_df)
             (monetary_column rfm_df) of
        Inl e \<Rightarrow> Inl e
      | Inr (r, f, m) \<Rightarrow> Inr (attach_scores rfm_df r f m))"

subsection \<open>Enterprise scorer: \<open>EnterpriseRFMAnalyzer._assign_rfm_scores\<close>\<close>

definition n_bins :: "nat \<Rightarrow> nat" where
  "n_bins n_customers = min 5 (max 2 (n_customers div 20))"

text \<open>\<open>list(range(1, n + 1))\<close> and \<open>list(range(n, 0, -1))\<close>.\<close>

definition labels_up :: "nat \<Rightarrow> int list" where
  "labels_up n = [1..int n]"

definition labels_down :: "nat \<Rightarrow> int list" where
  "labels_down n = rev [1..int n]"

text \<open>The body of the \<open>try\<close>: three quantile binnings, the first exception ends it.\<close>

definition quantile_scores ::
  "binning \<Rightarrow> real option list \<Rightarrow> real option list \<Rightarrow> real option list \<Rightarrow> nat
     \<Rightarrow> py_exception + (int option list \<times> int option list \<times> int option list)" where
  "quantile_scores lib recency_col frequency_col monetary_col bins =
     (case qcut lib recency_col bins (labels_down bins) of
        Inl e \<Rightarrow> Inl e
      | Inr r \<Rightarrow>
     (case qcut lib (rank_first frequency_col) bins (labels_up bins) of
        Inl e \<Rightarrow> Inl e
      | Inr f \<Rightarrow>
     (case qcut lib monetary_col bins (labels_up bins) of
        Inl e \<Rightarrow> Inl e
      | Inr m \<Rightarrow> Inr (r, f, m))))"

text \<open>The body of \<open>except ValueError\<close>: rank-based binning of all three columns.\<close>

definition rank_scores ::
  "binning \<Rightarrow> real option list \<Rightarrow> real option list \<Rightarrow> real option list \<Rightarrow> nat
     \<Rightarrow> py_exception + (int option list \<times> int option list \<times> int option list)" where
  "rank_scores lib recency_col frequency_col monetary_col bins =
     (case cut_fillna lib (rank_first recency_col) bins (labels_down bins) of
        Inl e \<Rightarrow> Inl e
      | Inr r \<Rightarrow>
     (case cut_fillna lib (rank_first frequency_col) bins (labels_up bins) of
        Inl e \<Rightarrow> Inl e
      | Inr f \<Rightarrow>
     (case cut_fillna lib (rank_first monetary_col) bins (labels_up bins) of
        Inl e \<Rightarrow> Inl e
      | Inr m \<Rightarrow> Inr (r, f, m))))"

definition is_value_error :: "py_exception \<Rightarrow> bool" where
  "is_value_error e = (case e of ValueError msg \<Rightarrow> True | _ \<Rightarrow> False)"

definition binned_scores ::
  "binning \<Rightarrow> real option list \<Rightarrow> real option list \<Rightarrow> real option list \<Rightarrow> nat
     \<Rightarrow> py_exception + (int option list \<times> int option list \<times> int option list)" where
  "binned_scores lib recency_col frequency_col monetary_col bins =
     (case quantile_scores lib recency_col frequency_col monetary_col bins of
        Inr cols \<Rightarrow> Inr cols
      | Inl e \<Rightarrow>
          if is_value_error e then rank_scores lib recency_col frequency_col monetary_col bins
          else Inl e)"

text \<open>
  The score columns that \<open>_assign_rfm_scores\<close> computes from the three metric columns of
  a table of \<open>n_customers\<close> rows.
\<close>

definition enterprise_score_columns ::
  "binning \<Rightarrow> nat \<Rightarrow> real option list \<Rightarrow> real option list \<Rightarrow> real option list
     \<Rightarrow> py_exception + (int list \<times> int list \<times> int list)" where
  "enterprise_score_columns lib n_customers recency_col frequency_col monetary_col =
     (let bins = n_bins n_customers in
      case binned_scores lib recency_col frequency_col monetary_col bins of
        Inl e \<Rightarrow> Inl e
      | Inr (r, f, m) \<Rightarrow>
          Inr (finalize (int bins) r, finalize (int bins) f, finalize (int bins) m))"

definition assign_rfm_scores ::
  "binning \<Rightarrow> 'a rfm_row_scheme list \<Rightarrow> py_exception + 'a scored_row_scheme list" where
  "assign_rfm_scores lib rfm_df =
     (let n_customers = length rfm_df in
      case enterprise_score_columns lib n_customers (recency_column rfm_df)
             (frequency_column rfm_df) (monetary_column rfm_df) of
        Inl e \<Rightarrow> Inl e
      | Inr (r, f, m) \<Rightarrow> Inr (attach_scores rfm_df r f m))"

text \<open>The neutral score of the documentation: \<open>ceil(K / 2)\<close>.\<close>

definition neutral_score :: "int \<Rightarrow> int" where
  "neutral_score k = (k + 1) div 2"

subsection \<open>A reference binning library\<close>

text \<open>
  The behaviour pandas documents for the three operations, over exact numbers, to run the
  scorers on concrete tables. \<open>qcut\<close> takes the \<open>q + 1\<close> linearly interpolated quantiles of
  the cells that are not null as bin edges and drops duplicate edges
  (\<open>duplicates='drop'\<close>); \<open>cut\<close> takes \<open>bins + 1\<close> equally spaced edges over the range of
  the cells that are not null, the lowest one lowered by 0.1% of the range, and refuses an
  empty column; both refuse labels that are not one fewer than the edges, and give null to
  a null cell and to a value outside the edges. \<open>fillna\<close> on a categorical column refuses
  a fill value that is not one of its categories. The numbers are exact: where rounding
  makes two floating-point quantiles differ that are equal here, the edges differ.
\<close>

definition quantile :: "real list \<Rightarrow> real \<Rightarrow> real" where
  "quantile s p =
     (let h = p * real (length s - 1); lo = nat \<lfloor>h\<rfloor>; hi = min (lo + 1) (length s - 1)
      in s ! lo + (h - real lo) * (s ! hi - s ! lo))"

definition linspace :: "real \<Rightarrow> real \<Rightarrow> nat \<Rightarrow> real list" where
  "linspace a b n = map (\<lambda>i. a + (b - a) * real i / real n) [0..<n + 1]"

definition searchsorted :: "real list \<Rightarrow> real \<Rightarrow> nat" where
  "searchsorted edges v = length (filter (\<lambda>b. b < v) edges)"

definition bins_to_cuts ::
  "real option list \<Rightarrow> real list \<Rightarrow> int list \<Rightarrow> bool \<Rightarrow> py_exception + int option list" where
  "bins_to_cuts x edges labels include_lowest =
     (let bins = (if length (remdups edges) < length edges \<and> length edges \<noteq> 2
                  then remdups edges else edges)
      in if int (length labels) \<noteq> int (length bins) - 1
         then Inl (ValueError ''Bin labels must be one fewer than the number of bin edges'')
         else Inr (map (\<lambda>cell. case cell of
                          None \<Rightarrow> None
                        | Some v \<Rightarrow>
                            (let i = (if include_lowest \<and> v = hd bins then 1
                                      else searchsorted bins v)
                             in if i = 0 \<or> i = length bins then None
                                else Some (labels ! (i - 1)))) x))"

definition pandas_qcut ::
  "real option list \<Rightarrow> nat \<Rightarrow> int list \<Rightarrow> py_exception + int option list" where
  "pandas_qcut x q labels =
     (if dropna x = []
      then Inl (ValueError ''Bin labels must be one fewer than the number of bin edges'')
      else bins_to_cuts x (map (\<lambda>i. quantile (sort (dropna x)) (real i / real q)) [0..<q + 1])
             labels True)"

definition pandas_cut ::
  "real option list \<Rightarrow> nat \<Rightarrow> int list \<Rightarrow> py_exception + int option list" where
  "pandas_cut x bins labels =
     (if x = [] then Inl (ValueError ''Cannot cut empty array'')
      else if dropna x = [] then Inl (ValueError ''Bin edges must be unique'')
      else
        let mn = Min (set (dropna x)); mx = Max (set (dropna x));
            edges =
              (if mn = mx
               then linspace (mn - (if mn \<noteq> 0 then 0.001 * \<bar>mn\<bar> else 0.001))
                      (mx + (if mx \<noteq> 0 then 0.001 * \<bar>mx\<bar> else 0.001)) bins
               else (linspace mn mx bins)[0 := mn - (mx - mn) * 0.001])
        in bins_to_cuts x edges labels False)"

definition pandas_fillna :: "int list \<Rightarrow> int \<Rightarrow> int option list \<Rightarrow> py_exception + int option list" where
  "pandas_fillna categories v col =
     (if v \<notin> set categories
      then Inl (TypeError (''Cannot setitem on a Categorical with a new category ('' @ py_str v
                  @ ''), set the categories first''))
      else Inr (map (\<lambda>x. case x of None \<Rightarrow> Some v | Some y \<Rightarrow> Some y) col))"

definition pandas :: binning where
  "pandas = \<lparr> qcut = pandas_qcut, cut = pandas_cut, cat_fillna = pandas_fillna \<rparr>"

section \<open>Metric aggregation: \<open>_prepare_data\<close> and \<open>_calculate_rfm_metrics\<close>\<close>








section \<open>Segment statistics: \<open>_analyze_segments\<close> and \<open>_calculate_pareto_distribution\<close>\<close>

record segment_stat =
  count :: nat
  percentage :: real
  revenue :: real
  revenue_percentage :: real
  avg_ltv :: real
  avg_recency :: real
  avg_frequency :: real
  top_percentile_ltv :: real
  churn_risk :: string

record pareto =
  customers_for_80_revenue_pct :: real
  revenue_from_top_20_customers_pct :: real
  pareto_efficiency :: real

record segment_stats =
  total_customers :: nat
  total_revenue :: real
  segments :: "(string \<times> segment_stat) list"
  pareto_analysis :: pareto

text \<open>
  Division of two Python integers raises on a zero divisor. Division of numpy numbers does
  not raise (it yields inf or nan and a warning), so it is written \<open>/\<close>: what it yields
  on a zero divisor is not a real number and is left open here.
\<close>

definition py_truediv :: "int \<Rightarrow> int \<Rightarrow> py_exception + real" where
  "py_truediv a b =
     (if b = 0 then Inl (ZeroDivisionError ''division by zero'')
      else Inr (real_of_int a / real_of_int b))"

text \<open>\<open>Series.iloc[i]\<close>: a negative position counts from the end.\<close>

definition iloc :: "'a list \<Rightarrow> int \<Rightarrow> py_exception + 'a" where
  "iloc xs i =
     (if 0 \<le> i \<and> i < int (length xs) then Inr (xs ! nat i)
      else if i < 0 \<and> - i \<le> int (length xs) then Inr (xs ! nat (int (length xs) + i))
      else Inl (IndexError ''single positional indexer is out-of-bounds''))"

text \<open>
  \<open>np.percentile(a, q)\<close> with linear interpolation. An empty array is taken to raise, the
  least favourable reading for the caller.
\<close>

definition np_percentile :: "real list \<Rightarrow> real \<Rightarrow> py_exception + real" where
  "np_percentile a q =
     (if a = [] then Inl (IndexError ''index -1 is out of bounds for axis 0 with size 0'')
      else Inr (quantile (sort a) (q / 100)))"

definition mean :: "real list \<Rightarrow> real" where
  "mean xs = sum_list xs / real (length xs)"

text \<open>\<open>Series.unique()\<close>: the distinct values in the order they first appear.\<close>

definition unique :: "'a list \<Rightarrow> 'a list" where
  "unique xs = rev (remdups (rev xs))"

fun cumsum_from :: "real \<Rightarrow> real list \<Rightarrow> real list" where
  "cumsum_from acc [] = []"
| "cumsum_from acc (x # xs) = (acc + x) # cumsum_from (acc + x) xs"

definition cumsum :: "real list \<Rightarrow> real list" where
  "cumsum xs = cumsum_from 0 xs"

text \<open>\<open>sort_values('monetary', ascending=False)['monetary']\<close>.\<close>

definition sorted_monetary :: "'a rfm_row_scheme list \<Rightarrow> real list" where
  "sorted_monetary df = rev (sort (map monetary df))"

definition customers_for_80_revenue :: "'a rfm_row_scheme list \<Rightarrow> nat" where
  "customers_for_80_revenue segments_df =
     (let cumulative_revenue = cumsum (sorted_monetary segments_df);
          total_revenue = sum_list (sorted_monetary segments_df)
      in length (filter (\<lambda>c. c \<le> total_revenue * 0.8) cumulative_revenue))"

definition calculate_pareto_distribution :: "'a rfm_row_scheme list \<Rightarrow> py_exception + pareto" where
  "calculate_pareto_distribution segments_df =
     (let sorted_customers = sorted_monetary segments_df;
          cumulative_revenue = cumsum sorted_customers;
          total_revenue = sum_list sorted_customers;
          percentage_for_80_revenue =
            real (customers_for_80_revenue segments_df) / real (length sorted_customers) * 100;
          top_20_customers = \<lfloor>real (length sorted_customers) * 0.2\<rfloor>
      in case iloc cumulative_revenue (top_20_customers - 1) of
           Inl e \<Rightarrow> Inl e
         | Inr top_revenue \<Rightarrow>
             Inr \<lparr> customers_for_80_revenue_pct = percentage_for_80_revenue,
                   revenue_from_top_20_customers_pct = top_revenue / total_revenue * 100,
                   pareto_efficiency = top_revenue / total_revenue * 100 / 20 \<rparr>)"

definition analyze_segment ::
  "'a segmented_row_scheme list \<Rightarrow> string \<Rightarrow> py_exception + (string \<times> segment_stat)" where
  "analyze_segment segments_df seg =
     (let segment_data = filter (\<lambda>row. segment row = seg) segments_df
      in case py_truediv (int (length segment_data)) (int (length segments_df)) of
           Inl e \<Rightarrow> Inl e
         | Inr share \<Rightarrow>
          (case np_percentile (map monetary segment_data) 90 of
             Inl e \<Rightarrow> Inl e
           | Inr p90 \<Rightarrow>
               Inr (seg,
                 \<lparr> count = length segment_data,
                   percentage = share * 100,
                   revenue = sum_list (map monetary segment_data),
                   revenue_percentage =
                     sum_list (map monetary segment_data) / sum_list (map monetary segments_df) * 100,
                   avg_ltv = mean (map monetary segment_data),
                   avg_recency = mean (map (\<lambda>row. real_of_int (recency row)) segment_data),
                   avg_frequency = mean (map (\<lambda>row. real_of_int (frequency row)) segment_data),
                   top_percentile_ltv = p90,
                   churn_risk =
                     (if seg \<in> set [''At Risk'', ''Cannot Lose Them'', ''Lost'']
                      then ''High'' else ''Low'') \<rparr>)))"

text \<open>The \<open>for\<close> loop over the segments: the first exception ends it.\<close>

fun for_each :: "('a \<Rightarrow> py_exception + 'b) \<Rightarrow> 'a list \<Rightarrow> py_exception + 'b list" where
  "for_each body [] = Inr []"
| "for_each body (x # xs) =
     (case body x of
        Inl e \<Rightarrow> Inl e
      | Inr y \<Rightarrow> (case for_each body xs of Inl e \<Rightarrow> Inl e | Inr ys \<Rightarrow> Inr (y # ys)))"

definition analyze_segments :: "'a segmented_row_scheme list \<Rightarrow> py_exception + segment_stats" where
  "analyze_segments segments_df =
     (case for_each (analyze_segment segments_df) (unique (map segment segments_df)) of
        Inl e \<Rightarrow> Inl e
      | Inr segs \<Rightarrow>
         (case calculate_pareto_distribution segments_df of
            Inl e \<Rightarrow> Inl e
          | Inr par \<Rightarrow>
              Inr \<lparr> total_customers = length segments_df,
                    total_revenue = sum_list (map monetary segments_df),
                    segments = segs,
                    pareto_analysis = par \<rparr>))"

text \<open>
  The Pareto statistic as the documentation words it: the size of the smallest prefix of
  the customers, sorted by monetary descending, whose cumulative revenue is at least 80%
  of the total, as a percentage of the customers.
\<close>

definition smallest_prefix_for_80 :: "'a rfm_row_scheme list \<Rightarrow> nat" where
  "smallest_prefix_for_80 segments_df =
     (let cumulative_revenue = cumsum (sorted_monetary segments_df);
          total_revenue = sum_list (sorted_monetary segments_df)
      in Suc (length (takeWhile (\<lambda>c. c < total_revenue * 0.8) cumulative_revenue)))"

definition documented_customers_for_80_revenue_pct :: "'a rfm_row_scheme list \<Rightarrow> real" where
  "documented_customers_for_80_revenue_pct segments_df =
     real (smallest_prefix_for_80 segments_df) / real (length segments_df) * 100"

section \<open>Sample tables\<close>

definition customer_1 :: rfm_row where
  "customer_1 = \<lparr> customer_id = ''c1'', recency = 10, frequency = 1, monetary = 120 \<rparr>"

definition customer_2 :: rfm_row where
  "customer_2 = \<lparr> customer_id = ''c2'', recency = 40, frequency = 3, monetary = 80 \<rparr>"

definition champion_a :: scored_row where
  "champion_a = \<lparr> customer_id = ''a'', recency = 3, frequency = 9, monetary = 900,
       r_score = 4, f_score = 4, m_score = 4, rfm_score = ''444'' \<rparr>"

definition champion_b :: scored_row where
  "champion_b = \<lparr> customer_id = ''b'', recency = 5, frequency = 7, monetary = 650,
       r_score = 4, f_score = 4, m_score = 4, rfm_score = ''444'' \<rparr>"

definition dormant_big_spender :: scored_row where
  "dormant_big_spender = \<lparr> customer_id = ''c'', recency = 300, frequency = 8, monetary = 990,
       r_score = 1, f_score = 5, m_score = 5, rfm_score = ''155'' \<rparr>"




definition buyer_60 :: segmented_row where
  "buyer_60 = \<lparr> customer_id = ''u1'', recency = 12, frequency = 4, monetary = 60,
       r_score = 2, f_score = 2, m_score = 2, rfm_score = ''222'', segment = ''Promising'' \<rparr>"

definition buyer_40 :: segmented_row where
  "buyer_40 = \<lparr> customer_id = ''u2'', recency = 200, frequency = 1, monetary = 40,
       r_score = 1, f_score = 1, m_score = 1, rfm_score = ''111'', segment = ''Lost'' \<rparr>"

text \<open>
  The metric columns of two tables whose last row has null metrics: one of two rows, one
  of eighty rows whose other rows are alike.
\<close>

definition two_recency :: "real option list" where
  "two_recency = [Some 10, None]"

definition two_frequency :: "real option list" where
  "two_frequency = [Some 1, None]"

definition two_monetary :: "real option list" where
  "two_monetary = [Some 120, None]"

definition eighty_recency :: "real option list" where
  "eighty_recency = replicate 79 (Some 10) @ [None]"

definition eighty_frequency :: "real option list" where
  "eighty_frequency = replicate 79 (Some 1) @ [None]"

definition eighty_monetary :: "real option list" where
  "eighty_monetary = replicate 79 (Some 120) @ [None]"

text \<open>The reference library, but with quantile binning for one number of bins only.\<close>

definition only_bins :: "nat \<Rightarrow> binning" where
  "only_bins k =
     pandas \<lparr> qcut := (\<lambda>col q labels.
        if q = k then pandas_qcut col q labels
        else Inl (OtherException ''NotImplementedError'' ''unsupported number of bins'')) \<rparr>"

section \<open>Properties of segment classification\<close>

lemma first_match_least:
  "first_match rules t = Some s \<Longrightarrow>
     \<exists>k < length rules. s = snd (rules ! k) \<and> fst (rules ! k) t \<and> (\<forall>l < k. \<not> fst (rules ! l) t)"
proof (induction rules)
  case Nil
  then show ?case by simp
next
  case (Cons rule rules)
  obtain c n where rule: "rule = (c, n)" by (cases rule)
  show ?case
  proof (cases "c t")
    case True
    with Cons.prems rule have "s = n" by simp
    with True rule show ?thesis by (intro exI[of _ 0]) simp
  next
    case False
    with Cons.prems rule have "first_match rules t = Some s" by simp
    from Cons.IH[OF this] obtain k where k: "k < length rules" "s = snd (rules ! k)"
      "fst (rules ! k) t" "\<forall>l < k. \<not> fst (rules ! l) t" by blast
    have "\<forall>l < Suc k. \<not> fst ((rule # rules) ! l) t"
    proof (intro allI impI)
      fix l assume "l < Suc k"
      then show "\<not> fst ((rule # rules) ! l) t"
        using k(4) False rule by (cases l) auto
    qed
    with k show ?thesis by (intro exI[of _ "Suc k"]) simp
  qed
qed

lemma enterprise_rules_names: "map snd (enterprise_rules th) = enterprise_segments"
  by (simp add: enterprise_rules_def enterprise_segments_def)

lemma enterprise_segments_distinct: "distinct enterprise_segments"
  by (simp add: enterprise_segments_def)

lemma segment_customers_refines:
  "first_match (enterprise_rules th) (score_triple row) = Some (segment_customers th row)"
  by (simp add: enterprise_rules_def score_triple_def segment_customers_def Let_def)

lemma earlier_rule_wins:
  assumes "i < j" "j < length (enterprise_rules th)"
    and "fst (enterprise_rules th ! i) (score_triple row)"
  shows "segment_customers th row \<noteq> snd (enterprise_rules th ! j)"
proof -
  from first_match_least[OF segment_customers_refines]
  obtain k where k: "k < length (enterprise_rules th)"
    "segment_customers th row = snd (enterprise_rules th ! k)"
    "\<forall>l < k. \<not> fst (enterprise_rules th ! l) (score_triple row)"
    by blast
  from k(3) assms(3) have "k \<le> i" by (meson not_le)
  with assms(1) have "k \<noteq> j" by simp
  have "distinct (map snd (enterprise_rules th))"
    by (simp add: enterprise_rules_names enterprise_segments_distinct)
  then have "(map snd (enterprise_rules th) ! k = map snd (enterprise_rules th) ! j) = (k = j)"
    using k(1) assms(2) by (intro nth_eq_iff_index_eq) simp_all
  with \<open>k \<noteq> j\<close> k(1) assms(2) have "snd (enterprise_rules th ! k) \<noteq> snd (enterprise_rules th ! j)"
    by simp
  with k(2) show ?thesis by simp
qed

text \<open>
  Claim C6. For every scored row and every threshold dictionary, the enterprise
  classifier \<open>segment_customers\<close> returns what a first-match-wins reading of its rules gives,
  the rules taken in the order Champions, Loyal Customers, Potential Loyalists, New
  Customers, Promising, Need Attention, At Risk, Cannot Lose Them, Lost, Others. In
  particular, when the conditions of two rules hold for a row, the row is not given the
  later rule's segment.
\<close>

theorem segment_customers_first_match_wins:
  "first_match (enterprise_rules th) (score_triple row) = Some (segment_customers th row)
   \<and> map snd (enterprise_rules th) = enterprise_segments
   \<and> (\<forall>i j. i < j \<and> j < length (enterprise_rules th)
          \<and> fst (enterprise_rules th ! i) (score_triple row)
          \<and> fst (enterprise_rules th ! j) (score_triple row)
        \<longrightarrow> segment_customers th row \<noteq> snd (enterprise_rules th ! j))"
  using segment_customers_refines enterprise_rules_names earlier_rule_wins by blast

text \<open>
  A row with scores (4, 4, 4) meets the conditions of Champions and of Loyal Customers; it
  is a Champion.
\<close>

theorem segment_customers_first_match_wins_witness:
  "fst (enterprise_rules segment_thresholds ! 0) (score_triple champion_a)
   \<and> fst (enterprise_rules segment_thresholds ! 1) (score_triple champion_a)
   \<and> segment_customers segment_thresholds champion_a = ''Champions''
   \<and> snd (enterprise_rules segment_thresholds ! 1) = ''Loyal Customers''
   \<and> segment_customers segment_thresholds champion_a
        \<noteq> snd (enterprise_rules segment_thresholds ! 1)"
proof -
  have c0: "fst (enterprise_rules segment_thresholds ! 0) (score_triple champion_a)"
    by (simp add: enterprise_rules_def score_triple_def champion_a_def segment_thresholds_def
        dict_get_def)
  have c1: "fst (enterprise_rules segment_thresholds ! 1) (score_triple champion_a)"
    by (simp add: enterprise_rules_def score_triple_def champion_a_def)
  have len: "(0::nat) < 1 \<and> 1 < length (enterprise_rules segment_thresholds)"
    by (simp add: enterprise_rules_def)
  have s: "segment_customers segment_thresholds champion_a = ''Champions''"
    by (simp add: segment_customers_def champion_a_def segment_thresholds_def dict_get_def)
  have n: "snd (enterprise_rules segment_thresholds ! 1) = ''Loyal Customers''"
    by (simp add: enterprise_rules_def)
  from segment_customers_first_match_wins[of segment_thresholds champion_a] c0 c1 len
  have "segment_customers segment_thresholds champion_a
        \<noteq> snd (enterprise_rules segment_thresholds ! 1)" by blast
  with c0 c1 s n show ?thesis by blast
qed

lemma rfm_segment_in_set: "rfm_segment_customers x \<in> set simple_segments"
  by (simp add: rfm_segment_customers_def simple_segments_def)

lemma segment_in_set: "segment_customers th x \<in> set enterprise_segments"
  by (simp add: segment_customers_def enterprise_segments_def Let_def)

lemma segment_with_segment: "segment (with_segment s row) = s"
  by (simp add: with_segment_def)

lemma segment_with_priority: "segment (with_priority row) = segment row"
  by (simp add: with_priority_def)

text \<open>
  Claim C7. Segment classification has no error path and gives every scored row one
  segment name of its policy's fixed set: one of the six names of the simple policy, one
  of the ten of the enterprise policy; the segment column of the classified table is the
  row function applied to each row, in order. The label is a function of the score triple:
  in the enterprise policy two rows with the same triple get the same segment, and in the
  simple policy two rows that the scorer built from the same triple do (the simple rules
  also read the composite \<open>rfm_score\<close>, which the scorer builds from the triple).
\<close>

theorem segment_classification_total_deterministic:
  "rfm_segment_customers x \<in> set simple_segments
   \<and> segment_customers th x \<in> set enterprise_segments
   \<and> map segment (create_segments tbl) = map rfm_segment_customers tbl
   \<and> map segment (enterprise_create_segments th tbl) = map (segment_customers th) tbl
   \<and> (score_triple x = score_triple y \<longrightarrow> segment_customers th x = segment_customers th y)
   \<and> rfm_segment_customers (with_scores r f m a) = rfm_segment_customers (with_scores r f m b)"
proof -
  have "map segment (create_segments tbl) = map rfm_segment_customers tbl"
    by (simp add: create_segments_def segment_with_segment comp_def)
  moreover have "map segment (enterprise_create_segments th tbl) = map (segment_customers th) tbl"
    by (simp add: enterprise_create_segments_def segment_with_segment segment_with_priority
        comp_def)
  moreover have "score_triple x = score_triple y
      \<longrightarrow> segment_customers th x = segment_customers th y"
    by (simp add: score_triple_def segment_customers_def)
  moreover have "rfm_segment_customers (with_scores r f m a)
      = rfm_segment_customers (with_scores r f m b)"
    by (simp add: rfm_segment_customers_def with_scores_def)
  ultimately show ?thesis
    using rfm_segment_in_set segment_in_set by blast
qed

theorem segment_classification_total_deterministic_witness:
  "score_triple champion_a = score_triple champion_b
   \<and> segment_customers segment_thresholds champion_a
       = segment_customers segment_thresholds champion_b
   \<and> map segment (create_segments [champion_a, dormant_big_spender])
       = [''Loyal Customers'', ''At Risk'']
   \<and> map segment (enterprise_create_segments segment_thresholds [champion_a, dormant_big_spender])
       = [''Champions'', ''At Risk'']"
proof -
  have t: "score_triple champion_a = score_triple champion_b"
    by (simp add: score_triple_def champion_a_def champion_b_def)
  have s: "map rfm_segment_customers [champion_a, dormant_big_spender]
      = [''Loyal Customers'', ''At Risk'']"
    by (simp add: rfm_segment_customers_def champion_a_def dormant_big_spender_def)
  have e: "map (segment_customers segment_thresholds) [champion_a, dormant_big_spender]
      = [''Champions'', ''At Risk'']"
    by (simp add: segment_customers_def champion_a_def dormant_big_spender_def
        segment_thresholds_def dict_get_def)
  from segment_classification_total_deterministic
         [where x = champion_a and th = segment_thresholds
            and tbl = "[champion_a, dormant_big_spender]" and y = champion_b
            and r = 4 and f = 4 and m = 4 and a = customer_1 and b = customer_2]
       t s e
  show ?thesis by simp
qed

text \<open>
  Claim C10. With the default thresholds the enterprise classifier never returns
  'Cannot Lose Them', whatever the scores: a row that meets that rule's condition
  (r = 1, f >= 4, m >= 4) meets the condition of At Risk (r <= 2, f >= 3), which stands
  before it.
\<close>

theorem cannot_lose_them_unreachable:
  "segment_customers segment_thresholds row \<noteq> ''Cannot Lose Them''
   \<and> (r_score row = 1 \<and> f_score row \<ge> 4 \<and> m_score row \<ge> 4
        \<longrightarrow> r_score row \<le> dict_get segment_thresholds ''at_risk_r_max'' 2 \<and> f_score row \<ge> 3)"
  by (simp add: segment_customers_def segment_thresholds_def dict_get_def Let_def)

theorem cannot_lose_them_unreachable_witness:
  "r_score dormant_big_spender = 1 \<and> f_score dormant_big_spender \<ge> 4
   \<and> m_score dormant_big_spender \<ge> 4
   \<and> segment_customers segment_thresholds dormant_big_spender = ''At Risk''
   \<and> segment_customers segment_thresholds dormant_big_spender \<noteq> ''Cannot Lose Them''"
proof -
  have h: "r_score dormant_big_spender = 1 \<and> f_score dormant_big_spender \<ge> 4
      \<and> m_score dormant_big_spender \<ge> 4"
    by (simp add: dormant_big_spender_def)
  have s: "segment_customers segment_thresholds dormant_big_spender = ''At Risk''"
    by (simp add: segment_customers_def dormant_big_spender_def segment_thresholds_def
        dict_get_def)
  from cannot_lose_them_unreachable[of dormant_big_spender] h s show ?thesis by simp
qed

section \<open>Properties of score assignment\<close>

lemma finalize_range:
  assumes "1 \<le> k" "v \<in> set (finalize k col)"
  shows "v \<in> {1..k}"
  using assms by (auto simp: finalize_def clip_def)

lemma attach_scores_member:
  assumes "row \<in> set (attach_scores rfm rs fs ms)"
  shows "r_score row \<in> set rs \<and> f_score row \<in> set fs \<and> m_score row \<in> set ms"
proof -
  from assms obtain a r f m where mem: "(a, r, f, m) \<in> set (zip rfm (zip rs (zip fs ms)))"
    and row: "row = with_scores r f m a"
    by (auto simp: attach_scores_def)
  from mem have 1: "(r, f, m) \<in> set (zip rs (zip fs ms))" by (rule set_zip_rightD)
  then have 2: "(f, m) \<in> set (zip fs ms)" by (rule set_zip_rightD)
  from 1 have "r \<in> set rs" by (rule set_zip_leftD)
  moreover from 2 have "f \<in> set fs" by (rule set_zip_leftD)
  moreover from 2 have "m \<in> set ms" by (rule set_zip_rightD)
  ultimately show ?thesis using row by (simp add: with_scores_def)
qed

lemma assign_scores_Inr:
  assumes "assign_scores lib rfm = Inr out"
  shows "\<exists>r f m. out = attach_scores rfm (finalize 5 r) (finalize 5 f) (finalize 5 m)"
  using assms
  by (auto simp: assign_scores_def simple_score_columns_def split: sum.splits prod.splits)

lemma assign_rfm_scores_Inr:
  assumes "assign_rfm_scores lib rfm = Inr out"
  shows "\<exists>r f m.
           out = attach_scores rfm (finalize (int (n_bins (length rfm))) r)
                  (finalize (int (n_bins (length rfm))) f) (finalize (int (n_bins (length rfm))) m)"
  using assms
  by (auto simp: assign_rfm_scores_def enterprise_score_columns_def Let_def
      split: sum.splits prod.splits)

lemma n_bins_bounds: "2 \<le> n_bins n \<and> n_bins n \<le> 5"
  by (simp add: n_bins_def)

lemma scored_rows_in_range:
  assumes "1 \<le> k" "row \<in> set (attach_scores rfm (finalize k r) (finalize k f) (finalize k m))"
  shows "r_score row \<in> {1..k} \<and> f_score row \<in> {1..k} \<and> m_score row \<in> {1..k}"
  using attach_scores_member[OF assms(2)] finalize_range[OF assms(1)] by blast

text \<open>
  Claim C1. Whatever the binning library returns, on the quantile path or on the fallback
  path, every row of the table that score assignment returns has \<open>r_score\<close>, \<open>f_score\<close> and
  \<open>m_score\<close> integers between 1 and K: K = 5 for the simple scorer \<open>assign_scores\<close>, and
  K = \<open>n_bins\<close> of the number of customers for the enterprise scorer \<open>_assign_rfm_scores\<close>.
\<close>

theorem scores_in_range:
  "(assign_scores lib rfm = Inr out \<longrightarrow>
      (\<forall>row \<in> set out. r_score row \<in> {1..5} \<and> f_score row \<in> {1..5} \<and> m_score row \<in> {1..5}))
   \<and> (assign_rfm_scores lib rfm = Inr out' \<longrightarrow>
      (\<forall>row \<in> set out'. r_score row \<in> {1..int (n_bins (length rfm))}
          \<and> f_score row \<in> {1..int (n_bins (length rfm))}
          \<and> m_score row \<in> {1..int (n_bins (length rfm))}))"
proof -
  have simple: "\<forall>row \<in> set out. r_score row \<in> {1..5} \<and> f_score row \<in> {1..5} \<and> m_score row \<in> {1..5}"
    if ret: "assign_scores lib rfm = Inr out"
  proof
    fix row assume "row \<in> set out"
    with ret obtain r f m
      where "row \<in> set (attach_scores rfm (finalize 5 r) (finalize 5 f) (finalize 5 m))"
      using assign_scores_Inr by blast
    then show "r_score row \<in> {1..5} \<and> f_score row \<in> {1..5} \<and> m_score row \<in> {1..5}"
      using scored_rows_in_range[of 5 row rfm r f m] by simp
  qed
  let ?k = "int (n_bins (length rfm))"
  have enterprise: "\<forall>row \<in> set out'. r_score row \<in> {1..?k} \<and> f_score row \<in> {1..?k} \<and> m_score row \<in> {1..?k}"
    if ret: "assign_rfm_scores lib rfm = Inr out'"
  proof
    fix row assume "row \<in> set out'"
    with ret obtain r f m
      where "row \<in> set (attach_scores rfm (finalize ?k r) (finalize ?k f) (finalize ?k m))"
      using assign_rfm_scores_Inr by blast
    moreover have "1 \<le> ?k" using n_bins_bounds[of "length rfm"] by simp
    ultimately show "r_score row \<in> {1..?k} \<and> f_score row \<in> {1..?k} \<and> m_score row \<in> {1..?k}"
      using scored_rows_in_range[of ?k row rfm r f m] by simp
  qed
  from simple enterprise show ?thesis by blast
qed

lemma assign_scores_customer_1:
  "assign_scores pandas [customer_1] = Inr [with_scores 3 3 3 customer_1]"
  by code_simp

lemma assign_scores_two_customers:
  "assign_scores pandas [customer_1, customer_2] =
     Inr [with_scores 5 1 5 customer_1, with_scores 1 5 1 customer_2]"
  by code_simp

lemma assign_rfm_scores_two_customers:
  "assign_rfm_scores pandas [customer_1, customer_2] =
     Inr [with_scores 2 1 2 customer_1, with_scores 1 2 1 customer_2]"
  by code_simp

theorem scores_in_range_witness:
  "assign_scores pandas [customer_1] = Inr [with_scores 3 3 3 customer_1]
   \<and> r_score (with_scores 3 3 3 customer_1) \<in> {1..5}
   \<and> f_score (with_scores 3 3 3 customer_1) \<in> {1..5}
   \<and> m_score (with_scores 3 3 3 customer_1) \<in> {1..5}
   \<and> assign_rfm_scores pandas [customer_1, customer_2] =
        Inr [with_scores 2 1 2 customer_1, with_scores 1 2 1 customer_2]
   \<and> r_score (with_scores 1 2 1 customer_2) \<in> {1..int (n_bins (length [customer_1, customer_2]))}
   \<and> f_score (with_scores 1 2 1 customer_2) \<in> {1..int (n_bins (length [customer_1, customer_2]))}
   \<and> m_score (with_scores 1 2 1 customer_2) \<in> {1..int (n_bins (length [customer_1, customer_2]))}"
proof -
  note simple = assign_scores_customer_1 and enterprise = assign_rfm_scores_two_customers
  from scores_in_range[of pandas "[customer_1]" "[with_scores 3 3 3 customer_1]"] simple
  have "\<forall>row \<in> set [with_scores 3 3 3 customer_1].
          r_score row \<in> {1..5} \<and> f_score row \<in> {1..5} \<and> m_score row \<in> {1..5}"
    by blast
  moreover
  from scores_in_range[of pandas "[customer_1, customer_2]" _
         "[with_scores 2 1 2 customer_1, with_scores 1 2 1 customer_2]"] enterprise
  have "\<forall>row \<in> set [with_scores 2 1 2 customer_1, with_scores 1 2 1 customer_2].
          r_score row \<in> {1..int (n_bins (length [customer_1, customer_2]))}
        \<and> f_score row \<in> {1..int (n_bins (length [customer_1, customer_2]))}
        \<and> m_score row \<in> {1..int (n_bins (length [customer_1, customer_2]))}"
    by blast
  ultimately show ?thesis using simple enterprise by simp
qed

lemma n_bins_five: "(n_bins n = 5) = (100 \<le> n)"
  by (auto simp: n_bins_def min_def max_def)

text \<open>
  Claim C5, amended. The enterprise scorer \<open>_assign_rfm_scores\<close> uses exactly
  K = min(5, max(2, n_customers // 20)) bins: K lies between 2 and 5, is 5 exactly when
  there are at least 100 customers, and the scorer's result depends on the binning library
  only through its calls with K bins. The simple scorer \<open>assign_scores\<close> always uses 5
  bins: its result depends on the library only through its calls with 5 bins.
\<close>

theorem enterprise_bin_count:
  "n_bins n = min 5 (max 2 (n div 20)) \<and> 2 \<le> n_bins n \<and> n_bins n \<le> 5
   \<and> (n_bins n = 5) = (100 \<le> n)
   \<and> (cat_fillna lib_a = cat_fillna lib_b
        \<and> (\<forall>col labels. qcut lib_a col (n_bins (length rfm)) labels
                            = qcut lib_b col (n_bins (length rfm)) labels
                        \<and> cut lib_a col (n_bins (length rfm)) labels
                            = cut lib_b col (n_bins (length rfm)) labels)
      \<longrightarrow> assign_rfm_scores lib_a rfm = assign_rfm_scores lib_b rfm)
   \<and> (cat_fillna lib_c = cat_fillna lib_d
        \<and> (\<forall>col labels. qcut lib_c col 5 labels = qcut lib_d col 5 labels
                        \<and> cut lib_c col 5 labels = cut lib_d col 5 labels)
      \<longrightarrow> assign_scores lib_c rfm' = assign_scores lib_d rfm')"
proof -
  have "assign_rfm_scores lib_a rfm = assign_rfm_scores lib_b rfm"
    if fill: "cat_fillna lib_a = cat_fillna lib_b"
      and bin: "\<forall>col labels. qcut lib_a col (n_bins (length rfm)) labels
                            = qcut lib_b col (n_bins (length rfm)) labels
                        \<and> cut lib_a col (n_bins (length rfm)) labels
                            = cut lib_b col (n_bins (length rfm)) labels"
  proof -
    let ?k = "n_bins (length rfm)"
    have "quantile_scores lib_a rc fc mc ?k = quantile_scores lib_b rc fc mc ?k" for rc fc mc
      using bin by (simp add: quantile_scores_def cong: sum.case_cong)
    moreover have "cut_fillna lib_a col ?k labels = cut_fillna lib_b col ?k labels" for col labels
      using bin fill by (simp add: cut_fillna_def cong: sum.case_cong)
    then have "rank_scores lib_a rc fc mc ?k = rank_scores lib_b rc fc mc ?k" for rc fc mc
      by (simp add: rank_scores_def cong: sum.case_cong)
    ultimately have "binned_scores lib_a rc fc mc ?k = binned_scores lib_b rc fc mc ?k"
      for rc fc mc
      by (simp add: binned_scores_def cong: sum.case_cong if_cong)
    then show ?thesis
      by (simp add: assign_rfm_scores_def enterprise_score_columns_def Let_def
          cong: sum.case_cong)
  qed
  moreover have "assign_scores lib_c rfm' = assign_scores lib_d rfm'"
    if fill: "cat_fillna lib_c = cat_fillna lib_d"
      and bin: "\<forall>col labels. qcut lib_c col 5 labels = qcut lib_d col 5 labels
                        \<and> cut lib_c col 5 labels = cut lib_d col 5 labels"
  proof -
    have "cut_fillna lib_c col 5 labels = cut_fillna lib_d col 5 labels" for col labels
      using bin fill by (simp add: cut_fillna_def cong: sum.case_cong)
    then have "qcut_or_cut lib_c qcol ccol labels = qcut_or_cut lib_d qcol ccol labels"
      for qcol ccol labels
      using bin by (simp add: qcut_or_cut_def cong: sum.case_cong if_cong)
    then show ?thesis
      by (simp add: assign_scores_def simple_score_columns_def cong: sum.case_cong)
  qed
  moreover have "n_bins n = min 5 (max 2 (n div 20))" by (simp add: n_bins_def)
  moreover have "2 \<le> n_bins n \<and> n_bins n \<le> 5" by (simp add: n_bins_def)
  ultimately show ?thesis using n_bins_five by blast
qed

lemma only_bins_agrees:
  "cat_fillna pandas = cat_fillna (only_bins k)
   \<and> (\<forall>col labels. qcut pandas col k labels = qcut (only_bins k) col k labels
                   \<and> cut pandas col k labels = cut (only_bins k) col k labels)"
  by (simp add: only_bins_def pandas_def)

theorem enterprise_bin_count_witness:
  "n_bins (length [customer_1, customer_2]) = 2
   \<and> assign_rfm_scores (only_bins 2) [customer_1, customer_2]
       = Inr [with_scores 2 1 2 customer_1, with_scores 1 2 1 customer_2]
   \<and> assign_scores (only_bins 5) [customer_1, customer_2]
       = Inr [with_scores 5 1 5 customer_1, with_scores 1 5 1 customer_2]"
proof -
  have k: "n_bins (length [customer_1, customer_2]) = 2" by (simp add: n_bins_def)
  from enterprise_bin_count[where lib_a = pandas and lib_b = "only_bins 2"
        and rfm = "[customer_1, customer_2]" and lib_c = pandas and lib_d = "only_bins 5"
        and rfm' = "[customer_1, customer_2]" and n = 2]
    only_bins_agrees[of 2] only_bins_agrees[of 5] k
  have "assign_rfm_scores pandas [customer_1, customer_2]
          = assign_rfm_scores (only_bins 2) [customer_1, customer_2]
      \<and> assign_scores pandas [customer_1, customer_2]
          = assign_scores (only_bins 5) [customer_1, customer_2]"
    by simp
  with k assign_scores_two_customers assign_rfm_scores_two_customers show ?thesis by simp
qed

text \<open>
  Two customers: the formula gives K = 2, yet the simple scorer gives the score 5, and it
  fails with a library that bins into two bins only, since it asks for five.
\<close>

theorem simple_scorer_five_bins_counterexample:
  "min 5 (max 2 (length [customer_1, customer_2] div 20)) = (2::nat)
   \<and> assign_scores pandas [customer_1, customer_2]
       = Inr [with_scores 5 1 5 customer_1, with_scores 1 5 1 customer_2]
   \<and> assign_scores (only_bins 2) [customer_1, customer_2]
       = Inl (OtherException ''NotImplementedError'' ''unsupported number of bins'')"
proof -
  have "assign_scores (only_bins 2) [customer_1, customer_2]
       = Inl (OtherException ''NotImplementedError'' ''unsupported number of bins'')"
    by (simp add: assign_scores_def simple_score_columns_def qcut_or_cut_def only_bins_def
        value_or_type_error_def)
  with assign_scores_two_customers show ?thesis by simp
qed

text \<open>
  Claim C4, amended. \<open>assign_scores\<close> has no check for an empty table and no exception of
  its own, and \<open>core/exceptions.py\<close> declares no \<open>EmptyDatasetError\<close>: on an empty metrics
  table, once quantile binning has refused the empty recency column with a ValueError or
  a TypeError, the exception that the fallback \<open>pd.cut\<close> raises on the empty column
  propagates unchanged (with pandas, ValueError: Cannot cut empty array).
\<close>

theorem assign_scores_empty_table:
  assumes "qcut lib [] 5 [5, 4, 3, 2, 1] = Inl e" and "value_or_type_error e"
    and "cut lib [] 5 [5, 4, 3, 2, 1] = Inl e'"
  shows "assign_scores lib [] = Inl e' \<and> ''EmptyDatasetError'' \<notin> set olist_exception_classes"
  using assms
  by (simp add: assign_scores_def simple_score_columns_def recency_column_def qcut_or_cut_def
      cut_fillna_def olist_exception_classes_def)

theorem assign_scores_empty_table_witness:
  "qcut pandas [] 5 [5, 4, 3, 2, 1]
     = Inl (ValueError ''Bin labels must be one fewer than the number of bin edges'')
   \<and> value_or_type_error (ValueError ''Bin labels must be one fewer than the number of bin edges'')
   \<and> cut pandas [] 5 [5, 4, 3, 2, 1] = Inl (ValueError ''Cannot cut empty array'')
   \<and> assign_scores pandas ([] :: rfm_row list) = Inl (ValueError ''Cannot cut empty array'')"
proof -
  have q: "qcut pandas [] 5 [5, 4, 3, 2, 1]
     = Inl (ValueError ''Bin labels must be one fewer than the number of bin edges'')"
    by (simp add: pandas_def pandas_qcut_def dropna_def)
  have v: "value_or_type_error (ValueError ''Bin labels must be one fewer than the number of bin edges'')"
    by (simp add: value_or_type_error_def)
  have c: "cut pandas [] 5 [5, 4, 3, 2, 1] = Inl (ValueError ''Cannot cut empty array'')"
    by (simp add: pandas_def pandas_cut_def)
  from assign_scores_empty_table[where 'a = unit, OF q v c] q v c show ?thesis by simp
qed

text \<open>With the reference library the empty table ends in a ValueError.\<close>

theorem assign_scores_empty_table_counterexample:
  "assign_scores pandas ([] :: rfm_row list) = Inl (ValueError ''Cannot cut empty array'')
   \<and> exception_type (ValueError ''Cannot cut empty array'') \<noteq> ''EmptyDatasetError''"
  by (simp add: assign_scores_def simple_score_columns_def recency_column_def qcut_or_cut_def
      cut_fillna_def pandas_def pandas_qcut_def pandas_cut_def dropna_def
      value_or_type_error_def)

lemma finalize_length: "length (finalize k col) = length col"
  by (simp add: finalize_def clip_def fillna_def to_numeric_def)

lemma fallback_imputes:
  assumes "fillna_returns_filled lib"
    and "cut_fillna lib x bins labels = Inr filled"
    and "cut lib x bins labels = Inr col"
    and "i < length col"
    and "col ! i = None"
  shows "finalize k filled ! i = min k (max 1 3)"
proof -
  from assms(2,3) have "cat_fillna lib labels 3 col = Inr filled"
    by (simp add: cut_fillna_def)
  with assms(1) have filled: "filled = map Some (fillna 3 col)"
    by (simp add: fillna_returns_filled_def)
  with assms(4,5) show ?thesis
    by (simp add: filled finalize_def clip_def fillna_def to_numeric_def)
qed

lemma qcut_or_cut_fallback:
  assumes "qcut_or_cut lib qcol ccol labels = Inr scores" and "qcut lib qcol 5 labels = Inl e"
  shows "cut_fillna lib ccol 5 labels = Inr scores"
  using assms by (simp add: qcut_or_cut_def split: if_splits)

lemma simple_score_columns_Inr:
  assumes "simple_score_columns lib rc fc mc = Inr (rs, fs, ms)"
  shows "\<exists>r f m.
      qcut_or_cut lib rc rc [5, 4, 3, 2, 1] = Inr r
    \<and> qcut_or_cut lib (rank_first fc) fc [1, 2, 3, 4, 5] = Inr f
    \<and> qcut_or_cut lib mc mc [1, 2, 3, 4, 5] = Inr m
    \<and> rs = finalize 5 r \<and> fs = finalize 5 f \<and> ms = finalize 5 m"
  using assms by (auto simp: simple_score_columns_def split: sum.splits)

lemma rank_scores_Inr:
  assumes "rank_scores lib rc fc mc bins = Inr (r, f, m)"
  shows "cut_fillna lib (rank_first rc) bins (labels_down bins) = Inr r
       \<and> cut_fillna lib (rank_first fc) bins (labels_up bins) = Inr f
       \<and> cut_fillna lib (rank_first mc) bins (labels_up bins) = Inr m"
  using assms by (auto simp: rank_scores_def split: sum.splits)

lemma enterprise_score_columns_Inr:
  assumes "enterprise_score_columns lib n rc fc mc = Inr (rs, fs, ms)"
  shows "\<exists>r f m. binned_scores lib rc fc mc (n_bins n) = Inr (r, f, m)
    \<and> rs = finalize (int (n_bins n)) r \<and> fs = finalize (int (n_bins n)) f
    \<and> ms = finalize (int (n_bins n)) m"
  using assms by (auto simp: enterprise_score_columns_def Let_def split: sum.splits)

lemma imputed_is_neutral_iff:
  "(min (int (n_bins n)) 3 = neutral_score (int (n_bins n))) = (n_bins n = 5)"
proof -
  have "n_bins n = 2 \<or> n_bins n = 3 \<or> n_bins n = 4 \<or> n_bins n = 5"
    by (auto simp: n_bins_def min_def max_def)
  then show ?thesis by (auto simp: neutral_score_def)
qed

text \<open>
  Claim C3, amended. The scorers read the three metric columns of their table, and a cell
  of a column may be null. When quantile binning fails and the fallback binning leaves
  the score of a row unresolved (null), the score that the scorer returns for that row is
  the constant 3 clamped into [1, K], that is min(K, 3), for each of \<open>r_score\<close>,
  \<open>f_score\<close> and \<open>m_score\<close>. In the simple scorer K = 5 and the value is the neutral
  score ceil(5 / 2) = 3. In the enterprise scorer it is the neutral score ceil(K / 2) only
  when K = 5: for K = 4 it is 3, not 2.
\<close>

theorem unresolved_scores_imputed:
  assumes "fillna_returns_filled lib"
  shows "(simple_score_columns lib rc fc mc = Inr (rs, fs, ms) \<longrightarrow>
            (\<forall>e col. qcut lib rc 5 [5, 4, 3, 2, 1] = Inl e
                 \<and> cut lib rc 5 [5, 4, 3, 2, 1] = Inr col
                 \<and> i < length col \<and> col ! i = None \<longrightarrow> rs ! i = neutral_score 5)
          \<and> (\<forall>e col. qcut lib (rank_first fc) 5 [1, 2, 3, 4, 5] = Inl e
                 \<and> cut lib fc 5 [1, 2, 3, 4, 5] = Inr col
                 \<and> i < length col \<and> col ! i = None \<longrightarrow> fs ! i = neutral_score 5)
          \<and> (\<forall>e col. qcut lib mc 5 [1, 2, 3, 4, 5] = Inl e
                 \<and> cut lib mc 5 [1, 2, 3, 4, 5] = Inr col
                 \<and> i < length col \<and> col ! i = None \<longrightarrow> ms ! i = neutral_score 5))
       \<and> (enterprise_score_columns lib n rc' fc' mc' = Inr (rs', fs', ms')
            \<and> quantile_scores lib rc' fc' mc' (n_bins n) = Inl e' \<longrightarrow>
            (\<forall>col. cut lib (rank_first rc') (n_bins n) (labels_down (n_bins n)) = Inr col
                 \<and> j < length col \<and> col ! j = None \<longrightarrow> rs' ! j = min (int (n_bins n)) 3)
          \<and> (\<forall>col. cut lib (rank_first fc') (n_bins n) (labels_up (n_bins n)) = Inr col
                 \<and> j < length col \<and> col ! j = None \<longrightarrow> fs' ! j = min (int (n_bins n)) 3)
          \<and> (\<forall>col. cut lib (rank_first mc') (n_bins n) (labels_up (n_bins n)) = Inr col
                 \<and> j < length col \<and> col ! j = None \<longrightarrow> ms' ! j = min (int (n_bins n)) 3))
       \<and> (min (int (n_bins n)) 3 = neutral_score (int (n_bins n))) = (n_bins n = 5)"
proof (intro conjI impI)
  assume "simple_score_columns lib rc fc mc = Inr (rs, fs, ms)"
  then obtain r f m where cols:
      "qcut_or_cut lib rc rc [5, 4, 3, 2, 1] = Inr r"
      "qcut_or_cut lib (rank_first fc) fc [1, 2, 3, 4, 5] = Inr f"
      "qcut_or_cut lib mc mc [1, 2, 3, 4, 5] = Inr m"
    and out: "rs = finalize 5 r" "fs = finalize 5 f" "ms = finalize 5 m"
    using simple_score_columns_Inr by blast
  show "\<forall>e col. qcut lib rc 5 [5, 4, 3, 2, 1] = Inl e
                 \<and> cut lib rc 5 [5, 4, 3, 2, 1] = Inr col
                 \<and> i < length col \<and> col ! i = None \<longrightarrow> rs ! i = neutral_score 5"
    using fallback_imputes[OF assms qcut_or_cut_fallback[OF cols(1)], of _ _ i 5] out(1)
    by (simp add: neutral_score_def)
  show "\<forall>e col. qcut lib (rank_first fc) 5 [1, 2, 3, 4, 5] = Inl e
                 \<and> cut lib fc 5 [1, 2, 3, 4, 5] = Inr col
                 \<and> i < length col \<and> col ! i = None \<longrightarrow> fs ! i = neutral_score 5"
    using fallback_imputes[OF assms qcut_or_cut_fallback[OF cols(2)], of _ _ i 5] out(2)
    by (simp add: neutral_score_def)
  show "\<forall>e col. qcut lib mc 5 [1, 2, 3, 4, 5] = Inl e
                 \<and> cut lib mc 5 [1, 2, 3, 4, 5] = Inr col
                 \<and> i < length col \<and> col ! i = None \<longrightarrow> ms ! i = neutral_score 5"
    using fallback_imputes[OF assms qcut_or_cut_fallback[OF cols(3)], of _ _ i 5] out(3)
    by (simp add: neutral_score_def)
next
  let ?k = "n_bins n"
  assume a: "enterprise_score_columns lib n rc' fc' mc' = Inr (rs', fs', ms')
            \<and> quantile_scores lib rc' fc' mc' ?k = Inl e'"
  then obtain r f m where b: "binned_scores lib rc' fc' mc' ?k = Inr (r, f, m)"
    and out: "rs' = finalize (int ?k) r" "fs' = finalize (int ?k) f" "ms' = finalize (int ?k) m"
    using enterprise_score_columns_Inr by blast
  from a b have "rank_scores lib rc' fc' mc' ?k = Inr (r, f, m)"
    by (simp add: binned_scores_def split: if_splits)
  note cols = rank_scores_Inr[OF this]
  show "\<forall>col. cut lib (rank_first rc') ?k (labels_down ?k) = Inr col
                 \<and> j < length col \<and> col ! j = None \<longrightarrow> rs' ! j = min (int ?k) 3"
    using fallback_imputes[OF assms conjunct1[OF cols], of _ j "int ?k"] out(1) by simp
  show "\<forall>col. cut lib (rank_first fc') ?k (labels_up ?k) = Inr col
                 \<and> j < length col \<and> col ! j = None \<longrightarrow> fs' ! j = min (int ?k) 3"
    using fallback_imputes[OF assms conjunct1[OF conjunct2[OF cols]], of _ j "int ?k"] out(2)
    by simp
  show "\<forall>col. cut lib (rank_first mc') ?k (labels_up ?k) = Inr col
                 \<and> j < length col \<and> col ! j = None \<longrightarrow> ms' ! j = min (int ?k) 3"
    using fallback_imputes[OF assms conjunct2[OF conjunct2[OF cols]], of _ j "int ?k"] out(3)
    by simp
next
  show "(min (int (n_bins n)) 3 = neutral_score (int (n_bins n))) = (n_bins n = 5)"
    by (rule imputed_is_neutral_iff)
qed

lemma dropna_replicate: "dropna (replicate n (Some v)) = replicate n v"
  by (simp add: dropna_def)

lemma dropna_append: "dropna (xs @ ys) = dropna xs @ dropna ys"
  by (simp add: dropna_def)

lemma dropna_null: "dropna [None] = []"
  by (simp add: dropna_def)

lemma rank_first_alike:
  "rank_first (replicate n (Some v) @ [None]) = map (\<lambda>i. Some (real (Suc i))) [0..<n] @ [None]"
proof -
  let ?xs = "replicate n (Some v) @ [None]"
  have "(case ?xs ! i of None \<Rightarrow> None
         | Some w \<Rightarrow> Some (real (1 + length (filter (\<lambda>y. y < w) (dropna ?xs))
                                  + length (filter (\<lambda>y. y = w) (dropna (take i ?xs))))))
        = Some (real (Suc i))" if "i < n" for i
    using that by (simp add: nth_append dropna_append dropna_replicate dropna_null min_def)
  then have "map (\<lambda>i. case ?xs ! i of None \<Rightarrow> None
         | Some w \<Rightarrow> Some (real (1 + length (filter (\<lambda>y. y < w) (dropna ?xs))
                                  + length (filter (\<lambda>y. y = w) (dropna (take i ?xs)))))) [0..<n]
        = map (\<lambda>i. Some (real (Suc i))) [0..<n]"
    by (intro map_cong) simp_all
  then show ?thesis
    by (simp add: rank_first_def nth_append)
qed

lemma pandas_fills: "fillna_returns_filled pandas"
  by (auto simp: fillna_returns_filled_def pandas_def pandas_fillna_def fillna_def
      split: option.splits if_splits)

lemma upt_five: "[0..<5] = [0, 1, 2, 3, 4]"
  by code_simp

lemma upt_six: "[0..<6] = [0, 1, 2, 3, 4, 5]"
  by code_simp

lemma eighty_qcut_fails:
  "qcut pandas eighty_recency 4 (labels_down 4)
     = Inl (ValueError ''Bin labels must be one fewer than the number of bin edges'')"
  by (simp add: eighty_recency_def pandas_def pandas_qcut_def dropna_append dropna_replicate
      dropna_null bins_to_cuts_def quantile_def Let_def sorted_sort_id labels_down_def
      upto.simps upt_five)

lemma eighty_quantile_fails:
  "quantile_scores pandas eighty_recency eighty_frequency eighty_monetary (n_bins 80)
     = Inl (ValueError ''Bin labels must be one fewer than the number of bin edges'')"
  using eighty_qcut_fails by (simp add: quantile_scores_def n_bins_def)

lemma cut_ranks_up:
  "cut pandas (map (\<lambda>i. Some (real (Suc i))) [0..<79] @ [None]) 4 (labels_up 4)
     = Inr (replicate 20 (Some 1) @ replicate 20 (Some 2) @ replicate 19 (Some 3)
            @ replicate 20 (Some 4) @ [None])"
  by (simp add: pandas_def pandas_cut_def dropna_def linspace_def bins_to_cuts_def
      searchsorted_def labels_up_def Let_def upto.simps eval_nat_numeral)

lemma cut_ranks_down:
  "cut pandas (map (\<lambda>i. Some (real (Suc i))) [0..<79] @ [None]) 4 (labels_down 4)
     = Inr (replicate 20 (Some 4) @ replicate 20 (Some 3) @ replicate 19 (Some 2)
            @ replicate 20 (Some 1) @ [None])"
  by (simp add: pandas_def pandas_cut_def dropna_def linspace_def bins_to_cuts_def
      searchsorted_def labels_down_def Let_def upto.simps eval_nat_numeral)

lemma eighty_cut:
  "cut pandas (rank_first eighty_recency) (n_bins 80) (labels_down (n_bins 80))
     = Inr (replicate 20 (Some 4) @ replicate 20 (Some 3) @ replicate 19 (Some 2)
            @ replicate 20 (Some 1) @ [None])"
  "cut pandas (rank_first eighty_frequency) (n_bins 80) (labels_up (n_bins 80))
     = Inr (replicate 20 (Some 1) @ replicate 20 (Some 2) @ replicate 19 (Some 3)
            @ replicate 20 (Some 4) @ [None])"
  "cut pandas (rank_first eighty_monetary) (n_bins 80) (labels_up (n_bins 80))
     = Inr (replicate 20 (Some 1) @ replicate 20 (Some 2) @ replicate 19 (Some 3)
            @ replicate 20 (Some 4) @ [None])"
  using cut_ranks_up cut_ranks_down
  by (simp_all add: eighty_recency_def eighty_frequency_def eighty_monetary_def
      rank_first_alike n_bins_def)

lemma fillna_three:
  "cat_fillna pandas (labels_up 4) 3 col = Inr (map Some (fillna 3 col))"
  "cat_fillna pandas (labels_down 4) 3 col = Inr (map Some (fillna 3 col))"
  by (auto simp: pandas_def pandas_fillna_def labels_up_def labels_down_def upto.simps
      fillna_def split: option.splits)

lemma eighty_enterprise:
  "enterprise_score_columns pandas 80 eighty_recency eighty_frequency eighty_monetary =
     Inr (replicate 20 4 @ replicate 20 3 @ replicate 19 2 @ replicate 20 1 @ [3],
          replicate 20 1 @ replicate 20 2 @ replicate 19 3 @ replicate 20 4 @ [3],
          replicate 20 1 @ replicate 20 2 @ replicate 19 3 @ replicate 20 4 @ [3])"
proof -
  have k: "n_bins 80 = 4" by (simp add: n_bins_def)
  have "rank_scores pandas eighty_recency eighty_frequency eighty_monetary 4 =
     Inr (map Some (fillna 3 (replicate 20 (Some 4) @ replicate 20 (Some 3) @ replicate 19 (Some 2)
            @ replicate 20 (Some 1) @ [None])),
          map Some (fillna 3 (replicate 20 (Some 1) @ replicate 20 (Some 2) @ replicate 19 (Some 3)
            @ replicate 20 (Some 4) @ [None])),
          map Some (fillna 3 (replicate 20 (Some 1) @ replicate 20 (Some 2) @ replicate 19 (Some 3)
            @ replicate 20 (Some 4) @ [None])))"
    using eighty_cut by (simp add: rank_scores_def cut_fillna_def fillna_three k)
  then have "binned_scores pandas eighty_recency eighty_frequency eighty_monetary 4 =
     Inr (map Some (fillna 3 (replicate 20 (Some 4) @ replicate 20 (Some 3) @ replicate 19 (Some 2)
            @ replicate 20 (Some 1) @ [None])),
          map Some (fillna 3 (replicate 20 (Some 1) @ replicate 20 (Some 2) @ replicate 19 (Some 3)
            @ replicate 20 (Some 4) @ [None])),
          map Some (fillna 3 (replicate 20 (Some 1) @ replicate 20 (Some 2) @ replicate 19 (Some 3)
            @ replicate 20 (Some 4) @ [None])))"
    using eighty_quantile_fails by (simp add: binned_scores_def is_value_error_def k)
  then show ?thesis
    by (simp add: enterprise_score_columns_def k finalize_def clip_def fillna_def to_numeric_def)
qed

lemma two_qcut_fails:
  "qcut pandas two_recency 5 [5, 4, 3, 2, 1]
     = Inl (ValueError ''Bin labels must be one fewer than the number of bin edges'')"
  "qcut pandas (rank_first two_frequency) 5 [1, 2, 3, 4, 5]
     = Inl (ValueError ''Bin labels must be one fewer than the number of bin edges'')"
  "qcut pandas two_monetary 5 [1, 2, 3, 4, 5]
     = Inl (ValueError ''Bin labels must be one fewer than the number of bin edges'')"
  by (simp_all add: two_recency_def two_frequency_def two_monetary_def rank_first_def
      pandas_def pandas_qcut_def dropna_def bins_to_cuts_def quantile_def Let_def upt_six)

lemma two_cut:
  "cut pandas two_recency 5 [5, 4, 3, 2, 1] = Inr [Some 3, None]"
  "cut pandas two_frequency 5 [1, 2, 3, 4, 5] = Inr [Some 3, None]"
  "cut pandas two_monetary 5 [1, 2, 3, 4, 5] = Inr [Some 3, None]"
  by (simp_all add: two_recency_def two_frequency_def two_monetary_def
      pandas_def pandas_cut_def dropna_def linspace_def bins_to_cuts_def searchsorted_def
      Let_def eval_nat_numeral)

lemma two_simple:
  "simple_score_columns pandas two_recency two_frequency two_monetary
     = Inr ([3, 3], [3, 3], [3, 3])"
  using two_qcut_fails two_cut
  by (simp add: simple_score_columns_def qcut_or_cut_def cut_fillna_def value_or_type_error_def
      pandas_def pandas_fillna_def finalize_def clip_def fillna_def to_numeric_def)


text \<open>
  Eighty customers, so K = 4; seventy-nine have the same metrics and the last has null
  metrics. Quantile binning of the recency column fails, since all its quantiles are
  equal; the rank-based fallback leaves the three scores of the last row null; they come
  out as 3, while ceil(4 / 2) = 2.
\<close>

theorem unresolved_scores_imputed_counterexample:
  "n_bins 80 = 4
   \<and> length eighty_recency = 80 \<and> length eighty_frequency = 80 \<and> length eighty_monetary = 80
   \<and> quantile_scores pandas eighty_recency eighty_frequency eighty_monetary 4
        = Inl (ValueError ''Bin labels must be one fewer than the number of bin edges'')
   \<and> cut pandas (rank_first eighty_monetary) 4 (labels_up 4)
        = Inr (replicate 20 (Some 1) @ replicate 20 (Some 2) @ replicate 19 (Some 3)
               @ replicate 20 (Some 4) @ [None])
   \<and> enterprise_score_columns pandas 80 eighty_recency eighty_frequency eighty_monetary
        = Inr (replicate 20 4 @ replicate 20 3 @ replicate 19 2 @ replicate 20 1 @ [3],
               replicate 20 1 @ replicate 20 2 @ replicate 19 3 @ replicate 20 4 @ [3],
               replicate 20 1 @ replicate 20 2 @ replicate 19 3 @ replicate 20 4 @ [3])
   \<and> (replicate 20 1 @ replicate 20 2 @ replicate 19 3 @ replicate 20 4 @ [3]) ! 79 = (3 :: int)
   \<and> neutral_score 4 = 2"
proof -
  have k: "n_bins 80 = 4" by (simp add: n_bins_def)
  have "length eighty_recency = 80 \<and> length eighty_frequency = 80 \<and> length eighty_monetary = 80"
    by (simp add: eighty_recency_def eighty_frequency_def eighty_monetary_def)
  moreover have "(replicate 20 1 @ replicate 20 2 @ replicate 19 3 @ replicate 20 4 @ [3]) ! 79
      = (3 :: int)"
    by (simp add: nth_append)
  moreover have "neutral_score 4 = 2" by (simp add: neutral_score_def)
  ultimately show ?thesis
    using k eighty_quantile_fails eighty_cut(3) eighty_enterprise by simp
qed

text \<open>
  The same table for the enterprise scorer, and for the simple scorer a table of two
  customers whose second row has null metrics: every score of the null row is 3.
\<close>

theorem unresolved_scores_imputed_witness:
  "fillna_returns_filled pandas
   \<and> simple_score_columns pandas two_recency two_frequency two_monetary
        = Inr ([3, 3], [3, 3], [3, 3])
   \<and> cut pandas two_recency 5 [5, 4, 3, 2, 1] = Inr [Some 3, None]
   \<and> cut pandas two_frequency 5 [1, 2, 3, 4, 5] = Inr [Some 3, None]
   \<and> cut pandas two_monetary 5 [1, 2, 3, 4, 5] = Inr [Some 3, None]
   \<and> [3, 3] ! 1 = neutral_score 5
   \<and> enterprise_score_columns pandas 80 eighty_recency eighty_frequency eighty_monetary
        = Inr (replicate 20 4 @ replicate 20 3 @ replicate 19 2 @ replicate 20 1 @ [3],
               replicate 20 1 @ replicate 20 2 @ replicate 19 3 @ replicate 20 4 @ [3],
               replicate 20 1 @ replicate 20 2 @ replicate 19 3 @ replicate 20 4 @ [3])
   \<and> (replicate 20 4 @ replicate 20 3 @ replicate 19 2 @ replicate 20 1 @ [3]) ! 79
        = min (int (n_bins 80)) 3
   \<and> (replicate 20 1 @ replicate 20 2 @ replicate 19 3 @ replicate 20 4 @ [3]) ! 79
        = min (int (n_bins 80)) 3"
proof -
  let ?down = "replicate 20 4 @ replicate 20 3 @ replicate 19 2 @ replicate 20 1 @ [3 :: int]"
  let ?up = "replicate 20 1 @ replicate 20 2 @ replicate 19 3 @ replicate 20 4 @ [3 :: int]"
  let ?cdown = "replicate 20 (Some 4) @ replicate 20 (Some 3) @ replicate 19 (Some 2)
            @ replicate 20 (Some 1) @ [None :: int option]"
  let ?cup = "replicate 20 (Some 1) @ replicate 20 (Some 2) @ replicate 19 (Some 3)
            @ replicate 20 (Some 4) @ [None :: int option]"
  note inst = unresolved_scores_imputed[OF pandas_fills, of two_recency two_frequency two_monetary
      "[3, 3]" "[3, 3]" "[3, 3]" 1 80 eighty_recency eighty_frequency eighty_monetary
      ?down ?up ?up "ValueError ''Bin labels must be one fewer than the number of bin edges''" 79]
  note simple = inst[THEN conjunct1, rule_format, OF two_simple]
  note enterprise = inst[THEN conjunct2, THEN conjunct1, rule_format,
      OF conjI[OF eighty_enterprise eighty_quantile_fails]]
  have null2: "(1::nat) < length [Some (3::int), None] \<and> [Some (3::int), None] ! 1 = None"
    by simp
  have null80: "79 < length ?cdown \<and> ?cdown ! 79 = None" "79 < length ?cup \<and> ?cup ! 79 = None"
    by (simp_all add: nth_append)
  have "[3, 3] ! 1 = neutral_score 5"
    using simple[THEN conjunct1, rule_format, OF conjI[OF two_qcut_fails(1) conjI[OF two_cut(1) null2]]]
      simple[THEN conjunct2, THEN conjunct1, rule_format,
        OF conjI[OF two_qcut_fails(2) conjI[OF two_cut(2) null2]]]
      simple[THEN conjunct2, THEN conjunct2, rule_format,
        OF conjI[OF two_qcut_fails(3) conjI[OF two_cut(3) null2]]]
    by simp
  moreover have "?down ! 79 = min (int (n_bins 80)) 3"
    using enterprise[THEN conjunct1, rule_format, OF conjI[OF eighty_cut(1) null80(1)]] .
  moreover have "?up ! 79 = min (int (n_bins 80)) 3"
    using enterprise[THEN conjunct2, THEN conjunct1, rule_format, OF conjI[OF eighty_cut(2) null80(2)]]
      enterprise[THEN conjunct2, THEN conjunct2, rule_format, OF conjI[OF eighty_cut(3) null80(2)]]
    by simp
  ultimately show ?thesis
    using pandas_fills two_simple two_cut eighty_enterprise by simp
qed

section \<open>Properties of metric aggregation\<close>







section \<open>Properties of segment statistics\<close>

text \<open>
  Claim C2. The claim is the documented statistic; the code computes another one.
  \<open>_calculate_pareto_distribution\<close> counts the customers whose cumulative revenue is at
  most 80% of the total, which is the largest prefix that does not exceed 80%, not the
  smallest prefix that reaches it. With revenues 60 and 40 the first customer brings 60%,
  both are needed for 80%, and the code reports 50% of the customers where the
  documented statistic is 100%; with a single customer the code reports 0%.
\<close>

theorem pareto_80_counts_one_short:
  "calculate_pareto_distribution [buyer_60, buyer_40] =
     Inr \<lparr> customers_for_80_revenue_pct = 50, revenue_from_top_20_customers_pct = 100,
           pareto_efficiency = 5 \<rparr>
   \<and> customers_for_80_revenue [buyer_60, buyer_40] = 1
   \<and> smallest_prefix_for_80 [buyer_60, buyer_40] = 2
   \<and> documented_customers_for_80_revenue_pct [buyer_60, buyer_40] = 100
   \<and> calculate_pareto_distribution [buyer_60] =
     Inr \<lparr> customers_for_80_revenue_pct = 0, revenue_from_top_20_customers_pct = 100,
           pareto_efficiency = 5 \<rparr>
   \<and> documented_customers_for_80_revenue_pct [buyer_60] = 100"
  by code_simp

lemma cumsum_from_length: "length (cumsum_from acc xs) = length xs"
  by (induction xs arbitrary: acc) simp_all

lemma cumsum_length: "length (cumsum xs) = length xs"
  by (simp add: cumsum_def cumsum_from_length)

lemma top_20_customers: "\<lfloor>real n * 0.2\<rfloor> = int (n div 5)"
proof -
  have "real n * 0.2 = real n / real 5" by simp
  then show ?thesis by (simp only: floor_divide_of_nat_eq)
qed

lemma pareto_returns:
  assumes "1 \<le> length df"
  shows "\<exists>par. calculate_pareto_distribution df = Inr par"
proof -
  let ?sorted = "sorted_monetary df"
  have len: "length (cumsum ?sorted) = length ?sorted" "length ?sorted = length df"
    by (simp_all add: cumsum_length sorted_monetary_def)
  have "\<exists>v. iloc (cumsum ?sorted) (int (length ?sorted div 5) - 1) = Inr v"
    using assms len by (auto simp: iloc_def)
  then obtain v where "iloc (cumsum ?sorted) (int (length ?sorted div 5) - 1) = Inr v" by blast
  then show ?thesis
    unfolding calculate_pareto_distribution_def Let_def top_20_customers by simp
qed

lemma for_each_returns:
  assumes "\<forall>x \<in> set xs. \<exists>y. body x = Inr y"
  shows "\<exists>ys. for_each body xs = Inr ys"
  using assms by (induction xs) auto

lemma analyze_segment_returns:
  assumes "seg \<in> set (map segment df)"
  shows "\<exists>stat. analyze_segment df seg = Inr stat"
proof -
  from assms obtain row where "row \<in> set df" "segment row = seg" by auto
  then have "filter (\<lambda>row. segment row = seg) df \<noteq> []" "df \<noteq> []"
    by (auto simp: filter_empty_conv)
  then show ?thesis
    by (simp add: analyze_segment_def Let_def py_truediv_def np_percentile_def)
qed

text \<open>
  Claim C9. For every segmented table of at least one and fewer than five customers the
  statistics stage returns: the per-segment aggregation with its 90th percentile and the
  Pareto computation raise nothing. There \<open>int(n * 0.2)\<close> is 0, and position \<open>0 - 1\<close> of
  the cumulative revenue is its last entry, the total.
\<close>

theorem statistics_small_population:
  assumes "1 \<le> length df" and "length df < 5"
  shows "(\<exists>stats par. calculate_pareto_distribution df = Inr par
                    \<and> analyze_segments df = Inr stats \<and> pareto_analysis stats = par)
       \<and> \<lfloor>real (length df) * 0.2\<rfloor> = 0
       \<and> iloc (cumsum (sorted_monetary df)) (\<lfloor>real (length df) * 0.2\<rfloor> - 1)
           = Inr (last (cumsum (sorted_monetary df)))"
proof -
  have top: "\<lfloor>real (length df) * 0.2\<rfloor> = 0"
    using assms(2) by (simp only: top_20_customers)
  have "length (cumsum (sorted_monetary df)) = length df"
    by (simp add: cumsum_length sorted_monetary_def)
  with assms(1) have "cumsum (sorted_monetary df) \<noteq> []" by auto
  then have last: "iloc (cumsum (sorted_monetary df)) (- 1) = Inr (last (cumsum (sorted_monetary df)))"
    by (cases "cumsum (sorted_monetary df)" rule: rev_cases) (simp_all add: iloc_def)
  from pareto_returns[OF assms(1)] obtain par where par: "calculate_pareto_distribution df = Inr par"
    by blast
  have "\<forall>seg \<in> set (unique (map segment df)). \<exists>stat. analyze_segment df seg = Inr stat"
  proof
    fix seg assume "seg \<in> set (unique (map segment df))"
    then have "seg \<in> set (map segment df)" by (simp add: unique_def)
    then show "\<exists>stat. analyze_segment df seg = Inr stat" by (rule analyze_segment_returns)
  qed
  from for_each_returns[OF this] obtain segs
    where "for_each (analyze_segment df) (unique (map segment df)) = Inr segs" by blast
  with par have "\<exists>stats par. calculate_pareto_distribution df = Inr par
                    \<and> analyze_segments df = Inr stats \<and> pareto_analysis stats = par"
    by (simp add: analyze_segments_def)
  with top last show ?thesis by simp
qed

theorem statistics_small_population_witness:
  "1 \<le> length [buyer_60, buyer_40] \<and> length [buyer_60, buyer_40] < 5
   \<and> (\<exists>stats par. calculate_pareto_distribution [buyer_60, buyer_40] = Inr par
         \<and> analyze_segments [buyer_60, buyer_40] = Inr stats \<and> pareto_analysis stats = par)
   \<and> iloc (cumsum (sorted_monetary [buyer_60, buyer_40]))
         (\<lfloor>real (length [buyer_60, buyer_40]) * 0.2\<rfloor> - 1)
       = Inr (last (cumsum (sorted_monetary [buyer_60, buyer_40])))"
proof -
  have h: "1 \<le> length [buyer_60, buyer_40]" "length [buyer_60, buyer_40] < 5" by simp_all
  from statistics_small_population[OF h] h show ?thesis by blast
qed

end
